theory Spec2Isabelle
  imports Main "HOL-Library.Sublist"
begin

section \<open>Analytics report update manager (cvat/apps/analytics_report/report/create.py)\<close>

text \<open>
  A shallow embedding of \<open>JobAnalyticsReportUpdateManager\<close>: the debounced scheduler
  (\<open>_find_next_job_id\<close>, \<open>schedule_analytics_report_autoupdate_job\<close>), the on-demand
  path (\<open>schedule_analytics_check_job\<close>, \<open>get_analytics_check_job\<close>) and the
  recomputation of reports (\<open>_compute_report_for_job\<close>, \<open>_compute_report_for_task\<close>,
  \<open>_compute_report_for_project\<close>).

  A \<open>datetime\<close> is the number of microseconds since the epoch, a \<open>timedelta\<close> a
  number of microseconds (Python keeps both at microsecond resolution, and
  \<open>timedelta // timedelta\<close> is floor division of the microsecond counts).
  Exceptions are values of \<open>error\<close>.
\<close>

subsection \<open>Time and errors\<close>

type_synonym datetime = int
type_synonym timedelta = int

datatype error =
    ValueError
  | ZeroDivisionError
  | OverflowError
  | AttributeError
  | KeyError
  | UnboundLocalError
  | DoesNotExist
  | CalculateError string

text \<open>\<open>datetime.min\<close> (0001-01-01T00:00:00) and \<open>datetime.max\<close>
  (9999-12-31T23:59:59.999999) in UTC, as microseconds since the epoch.\<close>

definition datetime_min :: datetime where
  "datetime_min = - 62135596800000000"

definition datetime_max :: datetime where
  "datetime_max = 253402300799999999"

text \<open>\<open>datetime + timedelta\<close>: Python raises OverflowError outside the range of dates.\<close>

definition datetime_add :: "datetime \<Rightarrow> timedelta \<Rightarrow> error + datetime" where
  "datetime_add t d =
     (if t + d < datetime_min \<or> datetime_max < t + d then Inl OverflowError else Inr (t + d))"

text \<open>\<open>timedelta // timedelta\<close>: floor division, ZeroDivisionError on a zero divisor.\<close>

definition timedelta_floordiv :: "timedelta \<Rightarrow> timedelta \<Rightarrow> error + int" where
  "timedelta_floordiv a b = (if b = 0 then Inl ZeroDivisionError else Inr (a div b))"

subsection \<open>Decimal text of identifiers and timestamps\<close>

definition digit_char :: "nat \<Rightarrow> char" where
  "digit_char d = ''0123456789'' ! d"

text \<open>The value of a decimal digit: its position in \<open>0123456789\<close>, None for any
  other character.\<close>

definition digit_val :: "char \<Rightarrow> nat option" where
  "digit_val c =
     (let i = length (takeWhile (\<lambda>d. d \<noteq> c) ''0123456789'')
      in if i < 10 then Some i else None)"

text \<open>\<open>str(n)\<close> of a non-negative integer.\<close>

function str_nat :: "nat \<Rightarrow> string" where
  "str_nat n = (if n < 10 then [digit_char n] else str_nat (n div 10) @ [digit_char (n mod 10)])"
  by pat_completeness auto
termination
  by (relation "measure id") auto

declare str_nat.simps [simp del]

text \<open>The digits after the decimal point of \<open>f / 10 ^ k\<close> for \<open>f < 10 ^ k\<close>, without
  trailing zeros.\<close>

fun frac_digits :: "nat \<Rightarrow> nat \<Rightarrow> string" where
  "frac_digits k f =
     (if k = 0 \<or> f = 0 then []
      else digit_char (f div 10 ^ (k - 1)) # frac_digits (k - 1) (f mod 10 ^ (k - 1)))"

declare frac_digits.simps [simp del]

text \<open>
  \<open>str(start_time.timestamp())\<close>: the timestamp is the float
  \<open>microseconds / 10 ^ 6\<close>, and \<open>str\<close> of a float prints the shortest decimal that
  reads back as the same float. For the times a clock gives today that is the exact
  decimal of the seconds with the microseconds as fraction (at least one digit, no
  trailing zeros): \<open>160.0\<close>, \<open>1700000000.25\<close>. The model prints this exact decimal
  for every time (Python switches to exponent notation below \<open>0.0001\<close> and from
  \<open>10 ^ 16\<close> seconds on, and rounds to 53 bits).
\<close>

definition str_timestamp :: "datetime \<Rightarrow> string" where
  "str_timestamp t =
     (let a = nat \<bar>t\<bar>; f = a mod 1000000
      in (if t < 0 then ''-'' else '''') @ str_nat (a div 1000000) @ ''.'' @
         (if f = 0 then ''0'' else frac_digits 6 f))"

fun parse_digits :: "nat \<Rightarrow> string \<Rightarrow> nat option" where
  "parse_digits acc [] = Some acc"
| "parse_digits acc (c # cs) =
     (case digit_val c of None \<Rightarrow> None | Some d \<Rightarrow> parse_digits (10 * acc + d) cs)"

fun parse_frac :: "nat \<Rightarrow> string \<Rightarrow> nat option" where
  "parse_frac k [] = Some 0"
| "parse_frac k (c # cs) =
     (if k = 0 then None
      else (case digit_val c of None \<Rightarrow> None
            | Some d \<Rightarrow> (case parse_frac (k - 1) cs of None \<Rightarrow> None
                        | Some r \<Rightarrow> Some (d * 10 ^ (k - 1) + r))))"

text \<open>
  \<open>timezone.datetime.fromtimestamp(float(s), tz=timezone.utc)\<close> on the texts that
  \<open>str_timestamp\<close> prints: an optional sign, digits, a point, and one to six digits.
  Any other text is a ValueError in the model (Python's \<open>float\<close> also reads exponents,
  blanks, \<open>inf\<close> and more digits, none of which the manager writes into a job id), and a
  time outside \<open>datetime.min .. datetime.max\<close> is refused as \<open>fromtimestamp\<close> does.
\<close>

definition parse_unsigned :: "string \<Rightarrow> nat option" where
  "parse_unsigned s =
     (let ip = takeWhile (\<lambda>c. c \<noteq> CHR ''.'') s; rest = dropWhile (\<lambda>c. c \<noteq> CHR ''.'') s
      in if ip = [] \<or> rest = [] \<or> tl rest = [] then None
         else (case parse_digits 0 ip of None \<Rightarrow> None
               | Some n \<Rightarrow> (case parse_frac 6 (tl rest) of None \<Rightarrow> None
                           | Some f \<Rightarrow> Some (n * 1000000 + f))))"

definition fromtimestamp :: "string \<Rightarrow> error + datetime" where
  "fromtimestamp s =
     (case (case s of [] \<Rightarrow> None
            | c # cs \<Rightarrow> if c = CHR ''-'' then map_option (\<lambda>n. - int n) (parse_unsigned cs)
                        else map_option int (parse_unsigned s)) of
        None \<Rightarrow> Inl ValueError
      | Some t \<Rightarrow> if t < datetime_min \<or> datetime_max < t then Inl ValueError else Inr t)"

subsection \<open>Database objects as the scheduler reads them\<close>

text \<open>
  Modelled from the spec: the model classes \<open>AnalyticsReport\<close>, \<open>Job\<close>, \<open>Task\<close> and
  \<open>Project\<close> are imported, not defined, in create.py. A report has a \<open>created_date\<close>
  and a \<open>statistics\<close> mapping from metric name to a statistics entry; an entry is
  \<open>{title, description, granularity, default_view, transformations, dataseries}\<close>.
  The type \<open>'d\<close> is the type of a dataseries (a JSON value in the program).
\<close>

record 'd statistics_entry =
  title :: string
  description :: string
  granularity :: string
  default_view :: string
  transformations :: "string list"
  dataseries :: 'd

record 'd analytics_report =
  created_date :: datetime
  statistics :: "(string \<times> 'd statistics_entry) list"

text \<open>The objects the scheduler is called with: a job reaches its task through
  \<open>job.segment.task\<close>, a task its project (or None) through \<open>task.project\<close>. The
  attribute \<open>analytics_report\<close> of a task or project is its report, or None when it
  has none: \<open>_get_last_report_time\<close> reads the attribute and tests it, as step 3 of
  section 4.1 of the spec does (\<open>lastReportTime\<close> is None when no report exists).\<close>

record 'd project_obj =
  project_id :: nat
  project_report :: "'d analytics_report option"

record 'd task_obj =
  task_id :: nat
  task_project :: "'d project_obj option"
  task_report :: "'d analytics_report option"

record 'd job_obj =
  job_pk :: nat
  job_segment_task :: "'d task_obj"

datatype 'd db_obj = Task "'d task_obj" | Project "'d project_obj"

fun obj_analytics_report :: "'d db_obj \<Rightarrow> 'd analytics_report option" where
  "obj_analytics_report (Task t) = task_report t"
| "obj_analytics_report (Project p) = project_report p"

subsection \<open>Job identifiers\<close>

definition QUEUE_JOB_PREFIX_TASK :: string where
  "QUEUE_JOB_PREFIX_TASK = ''update-analytics-report-task-''"

definition QUEUE_JOB_PREFIX_PROJECT :: string where
  "QUEUE_JOB_PREFIX_PROJECT = ''update-analytics-report-project-''"

definition RQ_CUSTOM_ANALYTICS_CHECK_JOB_TYPE :: string where
  "RQ_CUSTOM_ANALYTICS_CHECK_JOB_TYPE = ''custom_analytics_check''"

definition JOB_RESULT_TTL :: nat where
  "JOB_RESULT_TTL = 120"

fun make_queue_job_prefix :: "'d db_obj \<Rightarrow> string" where
  "make_queue_job_prefix (Task t) = QUEUE_JOB_PREFIX_TASK @ str_nat (task_id t) @ ''-''"
| "make_queue_job_prefix (Project p) = QUEUE_JOB_PREFIX_PROJECT @ str_nat (project_id p) @ ''-''"

definition make_initial_queue_job_id :: "'d db_obj \<Rightarrow> string" where
  "make_initial_queue_job_id obj = make_queue_job_prefix obj @ ''initial''"

definition make_regular_queue_job_id :: "'d db_obj \<Rightarrow> datetime \<Rightarrow> string" where
  "make_regular_queue_job_id obj start_time = make_queue_job_prefix obj @ str_timestamp start_time"

definition get_last_report_time :: "'d db_obj \<Rightarrow> datetime option" where
  "get_last_report_time obj =
     (case obj_analytics_report obj of Some report \<Rightarrow> Some (created_date report) | None \<Rightarrow> None)"

text \<open>\<open>s.split(sep, maxsplit=1)[-1]\<close> for a non-empty \<open>sep\<close>: what follows the first
  occurrence of \<open>sep\<close>, or \<open>s\<close> itself when \<open>sep\<close> does not occur.\<close>

fun after_first :: "string \<Rightarrow> string \<Rightarrow> string option" where
  "after_first sep [] = None"
| "after_first sep (c # cs) =
     (if prefix sep (c # cs) then Some (drop (length sep) (c # cs)) else after_first sep cs)"

definition split1_last :: "string \<Rightarrow> string \<Rightarrow> string" where
  "split1_last sep s = (case after_first sep s of None \<Rightarrow> s | Some r \<Rightarrow> r)"

text \<open>The local function \<open>_get_timestamp\<close> of \<open>_find_next_job_id\<close>.\<close>

definition get_timestamp :: "string \<Rightarrow> string \<Rightarrow> error + datetime" where
  "get_timestamp job_id_prefix job_id =
     (let job_timestamp = split1_last job_id_prefix job_id
      in if job_timestamp = ''initial'' then Inr datetime_min else fromtimestamp job_timestamp)"

text \<open>
  \<open>max(iterable, key=f, default=None)\<close>: the key of every item is computed (an
  exception of \<open>f\<close> propagates), and an item replaces the current maximum only when its
  key is strictly greater, so the first of several maximal items is returned.
\<close>

fun max_from :: "('a \<Rightarrow> error + datetime) \<Rightarrow> 'a \<Rightarrow> datetime \<Rightarrow> 'a list \<Rightarrow> error + 'a" where
  "max_from f m km [] = Inr m"
| "max_from f m km (x # xs) =
     (case f x of Inl e \<Rightarrow> Inl e
      | Inr k \<Rightarrow> if km < k then max_from f x k xs else max_from f m km xs)"

fun max_by_key :: "('a \<Rightarrow> error + datetime) \<Rightarrow> 'a list \<Rightarrow> error + 'a option" where
  "max_by_key f [] = Inr None"
| "max_by_key f (x # xs) =
     (case f x of Inl e \<Rightarrow> Inl e
      | Inr k \<Rightarrow> (case max_from f x k xs of Inl e \<Rightarrow> Inl e | Inr m \<Rightarrow> Inr (Some m)))"

text \<open>The last branch of \<open>_find_next_job_id\<close>: the time of the next time frame.\<close>

definition next_update_time :: "datetime \<Rightarrow> timedelta \<Rightarrow> datetime \<Rightarrow> error + datetime" where
  "next_update_time last_update_time delay now =
     (case timedelta_floordiv (now - last_update_time) delay of Inl e \<Rightarrow> Inl e
      | Inr q \<Rightarrow> (let intervals = max 1 (1 + q)
                 in datetime_add last_update_time (delay * intervals)))"

text \<open>
  \<open>_find_next_job_id(existing_job_ids, obj, now=now)\<close>. The set \<open>existing_job_ids\<close> is
  given as the list of its elements in iteration order; \<open>delay\<close> is
  \<open>_get_analytics_check_job_delay()\<close>, the configured
  \<open>timedelta(seconds=settings.ANALYTICS_CHECK_JOB_DELAY)\<close>.
\<close>

definition find_next_job_id ::
  "timedelta \<Rightarrow> string list \<Rightarrow> 'd db_obj \<Rightarrow> datetime \<Rightarrow> error + string" where
  "find_next_job_id delay existing_job_ids obj now =
     (let job_id_prefix = make_queue_job_prefix obj
      in case max_by_key (get_timestamp job_id_prefix)
                (filter (prefix job_id_prefix) existing_job_ids) of
           Inl e \<Rightarrow> Inl e
         | Inr max_job_id \<Rightarrow>
            (case (case max_job_id of None \<Rightarrow> Inr None
                   | Some j \<Rightarrow> if j = [] then Inr None
                               else map_sum id Some (get_timestamp job_id_prefix j)) of
               Inl e \<Rightarrow> Inl e
             | Inr max_timestamp \<Rightarrow>
                (case get_last_report_time obj of
                   None \<Rightarrow> Inr (make_initial_queue_job_id obj)
                 | Some last_update_time \<Rightarrow>
                    if max_timestamp \<noteq> None \<and> now < the max_timestamp then Inr (the max_job_id)
                    else (case next_update_time last_update_time delay now of
                            Inl e \<Rightarrow> Inl e
                          | Inr t \<Rightarrow> Inr (make_regular_queue_job_id obj t)))))"

text \<open>The spec's wording of the number of intervals,
  \<open>max(1, ceil((now - lastReportTime) / delay))\<close>, for comparison with the code.\<close>

definition spec_intervals :: "datetime \<Rightarrow> timedelta \<Rightarrow> datetime \<Rightarrow> int" where
  "spec_intervals last_update_time delay now = max 1 (- ((- (now - last_update_time)) div delay))"

subsection \<open>The job queue\<close>

text \<open>
  Modelled from the spec: the queue and its scheduler (django_rq) are used, not defined,
  in create.py. Section 6 of the spec gives their interface:
  \<open>listPending(untilTime)\<close>, \<open>enqueueAt(time, jobKey, payload)\<close>,
  \<open>enqueueNow(jobKey, payload, metadata, resultRetention)\<close> and \<open>fetch(jobKey)\<close>;
  a second enqueue under a key that is already there is ignored (section 3).
  The queue is the list of its jobs; a job that the scheduler holds for a later time
  has \<open>scheduled_time = Some t\<close>.
\<close>

datatype meta_value = MetaInt int | MetaStr string

record rq_job =
  rq_job_id :: string
  scheduled_time :: "datetime option"
  cvat_job_id :: "nat option"
  cvat_task_id :: "nat option"
  cvat_project_id :: "nat option"
  meta :: "(string \<times> meta_value) list"
  result_ttl :: "nat option"
  failure_ttl :: "nat option"

type_synonym rq_queue = "rq_job list"

definition fetch_job :: "rq_queue \<Rightarrow> string \<Rightarrow> rq_job option" where
  "fetch_job q key = find (\<lambda>j. rq_job_id j = key) q"

definition get_jobs :: "rq_queue \<Rightarrow> datetime \<Rightarrow> rq_job list" where
  "get_jobs q until =
     filter (\<lambda>j. case scheduled_time j of None \<Rightarrow> False | Some t \<Rightarrow> t \<le> until) q"

definition enqueue_job :: "rq_queue \<Rightarrow> rq_job \<Rightarrow> rq_queue" where
  "enqueue_job q j = (if fetch_job q (rq_job_id j) = None then q @ [j] else q)"

text \<open>\<open>scheduler.enqueue_at(time, self._check_job_analytics, cvat_task_id=...,
  cvat_project_id=..., job_id=...)\<close>.\<close>

definition enqueue_at :: "rq_queue \<Rightarrow> datetime \<Rightarrow> nat option \<Rightarrow> nat option \<Rightarrow> string \<Rightarrow> rq_queue" where
  "enqueue_at q t task_id_arg project_id_arg key =
     enqueue_job q \<lparr>rq_job_id = key, scheduled_time = Some t, cvat_job_id = None,
                    cvat_task_id = task_id_arg, cvat_project_id = project_id_arg,
                    meta = [], result_ttl = None, failure_ttl = None\<rparr>"

subsection \<open>Scheduling the periodic update\<close>

text \<open>
  Lines 122-141 of \<open>schedule_analytics_report_autoupdate_job\<close>: the target object and
  the two identifiers of the payload, \<open>(target_obj, cvat_project_id, cvat_task_id)\<close>.
  A model instance is truthy, so \<open>if task.project\<close> asks whether the task has a project.
\<close>

definition autoupdate_target ::
  "'d job_obj option \<Rightarrow> 'd task_obj option \<Rightarrow> 'd project_obj option
     \<Rightarrow> 'd db_obj option \<times> nat option \<times> nat option" where
  "autoupdate_target job task project =
     (case job of
        Some j \<Rightarrow>
          (case task_project (job_segment_task j) of
             Some p \<Rightarrow> (Some (Project p), Some (project_id p), None)
           | None \<Rightarrow> (Some (Task (job_segment_task j)), None, Some (task_id (job_segment_task j))))
      | None \<Rightarrow>
          (case task of
             Some t \<Rightarrow>
               (case task_project t of
                  Some p \<Rightarrow> (Some (Project p), Some (project_id p), None)
                | None \<Rightarrow> (Some (Task t), None, Some (task_id t)))
           | None \<Rightarrow>
               (case project of
                  Some p \<Rightarrow> (Some (Project p), Some (project_id p), None)
                | None \<Rightarrow> (None, None, None))))"

text \<open>
  Lines 122-151, from the set of listed job ids on: the target, its next job id, and the
  enqueue when that id is not listed. With no object at all \<open>target_obj\<close> is None and
  \<open>obj.id\<close> raises AttributeError. \<open>next_job_time\<close> is the time the job is scheduled at.
\<close>

definition autoupdate_enqueue ::
  "timedelta \<Rightarrow> datetime \<Rightarrow> datetime \<Rightarrow> string list \<Rightarrow> rq_queue
     \<Rightarrow> 'd job_obj option \<Rightarrow> 'd task_obj option \<Rightarrow> 'd project_obj option \<Rightarrow> error + rq_queue" where
  "autoupdate_enqueue delay now next_job_time existing_job_ids q job task project =
     (case autoupdate_target job task project of
        (None, _, _) \<Rightarrow> Inl AttributeError
      | (Some target_obj, project_id_arg, task_id_arg) \<Rightarrow>
          (case find_next_job_id delay existing_job_ids target_obj now of
             Inl e \<Rightarrow> Inl e
           | Inr queue_job_id \<Rightarrow>
               if queue_job_id \<notin> set existing_job_ids
               then Inr (enqueue_at q next_job_time task_id_arg project_id_arg queue_job_id)
               else Inr q))"

text \<open>
  \<open>schedule_analytics_report_autoupdate_job(job=, task=, project=)\<close>. The two readings
  of the clock are parameters: \<open>now\<close> is \<open>timezone.now()\<close> and \<open>utcnow\<close> is
  \<open>now.utcnow()\<close>. The set of listed ids is taken in the order of the queue.
\<close>

definition schedule_analytics_report_autoupdate_job ::
  "timedelta \<Rightarrow> datetime \<Rightarrow> datetime \<Rightarrow> rq_queue
     \<Rightarrow> 'd job_obj option \<Rightarrow> 'd task_obj option \<Rightarrow> 'd project_obj option \<Rightarrow> error + rq_queue" where
  "schedule_analytics_report_autoupdate_job delay now utcnow q job task project =
     (case datetime_add utcnow delay of
        Inl e \<Rightarrow> Inl e
      | Inr next_job_time \<Rightarrow>
          (let existing_job_ids = remdups (map rq_job_id (get_jobs q next_job_time))
           in autoupdate_enqueue delay now next_job_time existing_job_ids q job task project))"

subsection \<open>Calls that overlap\<close>





subsection \<open>On-demand checks\<close>

text \<open>\<open>schedule_analytics_check_job\<close>; \<open>rq_id\<close> is the fresh \<open>uuid4().hex\<close>. The
  result is the id and the queue.\<close>

definition schedule_analytics_check_job ::
  "string \<Rightarrow> rq_queue \<Rightarrow> 'd job_obj option \<Rightarrow> 'd task_obj option \<Rightarrow> 'd project_obj option
     \<Rightarrow> int \<Rightarrow> string \<times> rq_queue" where
  "schedule_analytics_check_job rq_id q job task project user_id =
     (rq_id,
      enqueue_job q
        \<lparr>rq_job_id = rq_id, scheduled_time = None,
         cvat_job_id = map_option job_pk job,
         cvat_task_id = map_option task_id task,
         cvat_project_id = map_option project_id project,
         meta = [(''user_id'', MetaInt user_id),
                 (''job_type'', MetaStr RQ_CUSTOM_ANALYTICS_CHECK_JOB_TYPE)],
         result_ttl = Some JOB_RESULT_TTL, failure_ttl = Some JOB_RESULT_TTL\<rparr>)"

definition is_custom_analytics_check_job :: "rq_job \<Rightarrow> bool" where
  "is_custom_analytics_check_job rq_job =
     (map_of (meta rq_job) ''job_type'' = Some (MetaStr RQ_CUSTOM_ANALYTICS_CHECK_JOB_TYPE))"

definition get_analytics_check_job :: "rq_queue \<Rightarrow> string \<Rightarrow> rq_job option" where
  "get_analytics_check_job q rq_id =
     (case fetch_job q rq_id of
        None \<Rightarrow> None
      | Some rq_job \<Rightarrow> if \<not> is_custom_analytics_check_job rq_job then None else Some rq_job)"

subsection \<open>Metrics\<close>

text \<open>
  The metric classes of \<open>primary_metrics\<close> and \<open>derived_metrics\<close> are imported, not
  defined, in create.py. They are a parameter \<open>metrics\<close> of the model: for a class, the
  object it is constructed with and the statistics entries passed to the constructor, it
  gives what \<open>_get_statistics_entry\<close> reads of the instance: the five static fields and
  the outcome of \<open>calculate()\<close>, a dataseries or an exception.
\<close>

datatype obj_ref = JobRef nat | TaskRef nat | ProjectRef nat

datatype metric_cls =
    JobAnnotationSpeed | JobAnnotationTime | JobObjects
  | JobTotalAnnotationSpeed | JobTotalObjectCount
  | TaskAnnotationSpeed | TaskObjects | TaskAnnotationTime
  | TaskTotalAnnotationSpeed | TaskTotalObjectCount
  | ProjectAnnotationSpeed | ProjectObjects | ProjectAnnotationTime
  | ProjectTotalAnnotationSpeed | ProjectTotalObjectCount

record 'd metric_behaviour =
  metric_title :: string
  metric_description :: string
  metric_granularity :: string
  metric_default_view :: string
  metric_transformations :: "string list"
  calculate :: "error + 'd"

type_synonym 'd metrics = "metric_cls \<Rightarrow> obj_ref \<Rightarrow> 'd statistics_entry list \<Rightarrow> 'd metric_behaviour"

text \<open>An instance of a metric class: its class, the object and the entries it was
  constructed with, and its behaviour.\<close>

record 'd statistics_object =
  metric_class :: metric_cls
  db_obj :: obj_ref
  data_sources :: "'d statistics_entry list"
  behaviour :: "'d metric_behaviour"

definition new_metric ::
  "'d metrics \<Rightarrow> metric_cls \<Rightarrow> obj_ref \<Rightarrow> 'd statistics_entry list \<Rightarrow> 'd statistics_object" where
  "new_metric metrics cls ref entries =
     \<lparr>metric_class = cls, db_obj = ref, data_sources = entries,
      behaviour = metrics cls ref entries\<rparr>"

subsection \<open>The report store and the objects of the recomputation\<close>

text \<open>
  Modelled from the spec: the \<open>AnalyticsReport\<close> model and its manager are imported, not
  defined, in create.py. Section 6 of the spec gives the store:
  \<open>get(entityRef)\<close>, \<open>create(entityRef, statistics={})\<close>, \<open>save(Report)\<close> and
  \<open>refresh(Report)\<close>; \<open>created_date\<close> is the time of the last write (section 4.3:
  persist, update \<open>created_date\<close> to now). The store holds at most one report for each
  job, task and project. \<open>calculate_calls\<close> records every call of a metric's
  \<open>calculate()\<close>, in order. The time of the writes of one run is the parameter \<open>now\<close>.
\<close>

record 'd world =
  reports :: "obj_ref \<Rightarrow> 'd analytics_report option"
  calculate_calls :: "(metric_cls \<times> obj_ref) list"

text \<open>A job, a task with the jobs of each of its segments, and a project with its tasks,
  as \<open>_compute_report_for_*\<close> walk them.\<close>

record job_row =
  job_row_id :: nat
  job_updated_date :: datetime

record task_row =
  task_row_id :: nat
  task_updated_date :: datetime
  segment_set :: "job_row list list"

record project_row =
  project_row_id :: nat
  project_updated_date :: datetime
  tasks :: "task_row list"

text \<open>A computation on the world that returns a value or raises; an exception keeps
  the world as it is at that moment.\<close>

type_synonym ('a, 'd) run = "'d world \<Rightarrow> (error + 'a) \<times> 'd world"

definition succeed :: "'a \<Rightarrow> ('a, 'd) run" where
  "succeed a st = (Inr a, st)"

definition lift_result :: "error + 'a \<Rightarrow> ('a, 'd) run" where
  "lift_result r st = (r, st)"

definition then_do :: "('a, 'd) run \<Rightarrow> ('a \<Rightarrow> ('b, 'd) run) \<Rightarrow> ('b, 'd) run" where
  "then_do m f st = (case m st of (Inl e, st') \<Rightarrow> (Inl e, st') | (Inr a, st') \<Rightarrow> f a st')"

text \<open>\<open>AnalyticsReport.objects.create(<ref>, statistics={})\<close> followed by \<open>save()\<close>.\<close>

definition create_report :: "datetime \<Rightarrow> obj_ref \<Rightarrow> 'd world \<Rightarrow> 'd analytics_report \<times> 'd world" where
  "create_report now ref st =
     (let r = \<lparr>created_date = now, statistics = []\<rparr>
      in (r, st\<lparr>reports := (reports st)(ref \<mapsto> r)\<rparr>))"

text \<open>\<open>db_report.statistics = statistics; db_report.save()\<close>, returning the report.\<close>

definition save_report ::
  "datetime \<Rightarrow> obj_ref \<Rightarrow> (string \<times> 'd statistics_entry) list \<Rightarrow> ('d analytics_report, 'd) run" where
  "save_report now ref stats st =
     (let r = \<lparr>created_date = now, statistics = stats\<rparr>
      in (Inr r, st\<lparr>reports := (reports st)(ref \<mapsto> r)\<rparr>))"

text \<open>\<open>db_job.analytics_report.refresh_from_db()\<close>: reading the attribute of a job
  without a report raises (RelatedObjectDoesNotExist, an AttributeError).\<close>

definition refresh_from_db :: "obj_ref \<Rightarrow> (unit, 'd) run" where
  "refresh_from_db ref st =
     (case reports st ref of None \<Rightarrow> (Inl AttributeError, st) | Some r \<Rightarrow> (Inr (), st))"

subsection \<open>Recomputing reports\<close>

definition get_statistics_entry :: "'d statistics_object \<Rightarrow> ('d statistics_entry, 'd) run" where
  "get_statistics_entry statistics_object st =
     (let st' = st\<lparr>calculate_calls :=
                  calculate_calls st @ [(metric_class statistics_object, db_obj statistics_object)]\<rparr>
      in case calculate (behaviour statistics_object) of
           Inl e \<Rightarrow> (Inl e, st')
         | Inr series \<Rightarrow>
             (Inr \<lparr>title = metric_title (behaviour statistics_object),
                   description = metric_description (behaviour statistics_object),
                   granularity = metric_granularity (behaviour statistics_object),
                   default_view = metric_default_view (behaviour statistics_object),
                   transformations = metric_transformations (behaviour statistics_object),
                   dataseries = series\<rparr>, st'))"

definition compute_report_for_job ::
  "'d metrics \<Rightarrow> datetime \<Rightarrow> job_row \<Rightarrow> ('d analytics_report, 'd) run" where
  "compute_report_for_job metrics now db_job st =
     (let ref = JobRef (job_row_id db_job);
          (db_report, was_created, st1) =
             (case reports st ref of
                None \<Rightarrow> (let (r, s) = create_report now ref st in (r, True, s))
              | Some r \<Rightarrow> (r, False, st))
      in if created_date db_report < job_updated_date db_job \<or> was_created then
           (let annotation_speed = new_metric metrics JobAnnotationSpeed ref [];
                objects = new_metric metrics JobObjects ref [];
                annotation_time = new_metric metrics JobAnnotationTime ref []
            in then_do (get_statistics_entry objects) (\<lambda>e_objects.
               then_do (get_statistics_entry annotation_speed) (\<lambda>e_annotation_speed.
               then_do (get_statistics_entry annotation_time) (\<lambda>e_annotation_time.
                 (let total_annotation_speed =
                        new_metric metrics JobTotalAnnotationSpeed ref [e_annotation_speed];
                      total_object_count =
                        new_metric metrics JobTotalObjectCount ref [e_annotation_speed]
                  in then_do (get_statistics_entry total_annotation_speed) (\<lambda>e_total_speed.
                     then_do (get_statistics_entry total_object_count) (\<lambda>e_total_count.
                       save_report now ref
                         [(''objects'', e_objects),
                          (''annotation_speed'', e_annotation_speed),
                          (''annotation_time'', e_annotation_time),
                          (''total_annotation_speed'', e_total_speed),
                          (''total_object_count'', e_total_count)]))))))) st1
         else (Inr db_report, st1))"

text \<open>\<open>[jr.statistics[key] for jr in job_reports]\<close>: KeyError when a report lacks the key.\<close>

fun statistics_of :: "string \<Rightarrow> 'd analytics_report list \<Rightarrow> error + 'd statistics_entry list" where
  "statistics_of key [] = Inr []"
| "statistics_of key (jr # jrs) =
     (case map_of (statistics jr) key of
        None \<Rightarrow> Inl KeyError
      | Some e \<Rightarrow> (case statistics_of key jrs of Inl err \<Rightarrow> Inl err | Inr es \<Rightarrow> Inr (e # es)))"

text \<open>The loop of \<open>_compute_report_for_task\<close> over the jobs of all segments.\<close>

fun compute_reports_for_jobs ::
  "'d metrics \<Rightarrow> datetime \<Rightarrow> job_row list \<Rightarrow> ('d analytics_report list, 'd) run" where
  "compute_reports_for_jobs metrics now [] = succeed []"
| "compute_reports_for_jobs metrics now (db_job # db_jobs) =
     then_do (compute_report_for_job metrics now db_job) (\<lambda>r.
     then_do (compute_reports_for_jobs metrics now db_jobs) (\<lambda>rs. succeed (r # rs)))"

definition compute_report_for_task ::
  "'d metrics \<Rightarrow> datetime \<Rightarrow> task_row \<Rightarrow> ('d analytics_report, 'd) run" where
  "compute_report_for_task metrics now db_task st =
     (let ref = TaskRef (task_row_id db_task);
          (db_report, was_created, st1) =
             (case reports st ref of
                None \<Rightarrow> (let (r, s) = create_report now ref st in (r, True, s))
              | Some r \<Rightarrow> (r, False, st))
      in if created_date db_report < task_updated_date db_task \<or> was_created then
           then_do (compute_reports_for_jobs metrics now (concat (segment_set db_task))) (\<lambda>job_reports.
           then_do (lift_result (statistics_of ''objects'' job_reports)) (\<lambda>s_objects.
           then_do (lift_result (statistics_of ''annotation_speed'' job_reports)) (\<lambda>s_speed.
           then_do (lift_result (statistics_of ''annotation_time'' job_reports)) (\<lambda>s_time.
             (let objects = new_metric metrics TaskObjects ref s_objects;
                  annotation_speed = new_metric metrics TaskAnnotationSpeed ref s_speed;
                  annotation_time = new_metric metrics TaskAnnotationTime ref s_time;
                  total_annotation_speed = new_metric metrics TaskTotalAnnotationSpeed ref s_speed;
                  total_object_count = new_metric metrics TaskTotalObjectCount ref s_speed
              in then_do (get_statistics_entry objects) (\<lambda>e_objects.
                 then_do (get_statistics_entry annotation_speed) (\<lambda>e_annotation_speed.
                 then_do (get_statistics_entry annotation_time) (\<lambda>e_annotation_time.
                 then_do (get_statistics_entry total_annotation_speed) (\<lambda>e_total_speed.
                 then_do (get_statistics_entry total_object_count) (\<lambda>e_total_count.
                   save_report now ref
                     [(''objects'', e_objects),
                      (''annotation_speed'', e_annotation_speed),
                      (''annotation_time'', e_annotation_time),
                      (''total_annotation_speed'', e_total_speed),
                      (''total_object_count'', e_total_count)]))))))))))
           st1
         else (Inr db_report, st1))"

text \<open>The inner loop of \<open>_compute_report_for_project\<close> over the jobs of one task: refresh
  the report of the job, then compute it.\<close>

fun refresh_and_compute_jobs ::
  "'d metrics \<Rightarrow> datetime \<Rightarrow> job_row list \<Rightarrow> ('d analytics_report list, 'd) run" where
  "refresh_and_compute_jobs metrics now [] = succeed []"
| "refresh_and_compute_jobs metrics now (db_job # db_jobs) =
     then_do (refresh_from_db (JobRef (job_row_id db_job))) (\<lambda>_.
     then_do (compute_report_for_job metrics now db_job) (\<lambda>r.
     then_do (refresh_and_compute_jobs metrics now db_jobs) (\<lambda>rs. succeed (r # rs))))"

text \<open>The outer loop over the tasks of the project; the result is \<open>job_reports\<close>.\<close>

fun compute_project_tasks ::
  "'d metrics \<Rightarrow> datetime \<Rightarrow> task_row list \<Rightarrow> ('d analytics_report list, 'd) run" where
  "compute_project_tasks metrics now [] = succeed []"
| "compute_project_tasks metrics now (db_task # db_tasks) =
     then_do (compute_report_for_task metrics now db_task) (\<lambda>_.
     then_do (refresh_and_compute_jobs metrics now (concat (segment_set db_task))) (\<lambda>rs.
     then_do (compute_project_tasks metrics now db_tasks) (\<lambda>rest. succeed (rs @ rest))))"

text \<open>
  \<open>_compute_report_for_project\<close>. After the loop the variable \<open>db_task\<close> is the last
  task of the project, and it is unbound (UnboundLocalError) when the project has no
  task. Line 294 constructs \<open>ProjectObjects\<close> with \<open>db_project\<close>; lines 295-298
  construct the other four metrics with \<open>db_task\<close>.
\<close>

definition compute_report_for_project ::
  "'d metrics \<Rightarrow> datetime \<Rightarrow> project_row \<Rightarrow> ('d analytics_report, 'd) run" where
  "compute_report_for_project metrics now db_project st =
     (let ref = ProjectRef (project_row_id db_project);
          (db_report, was_created, st1) =
             (case reports st ref of
                None \<Rightarrow> (let (r, s) = create_report now ref st in (r, True, s))
              | Some r \<Rightarrow> (r, False, st))
      in if created_date db_report < project_updated_date db_project \<or> was_created then
           then_do (compute_project_tasks metrics now (tasks db_project)) (\<lambda>job_reports.
           then_do (lift_result (statistics_of ''objects'' job_reports)) (\<lambda>s_objects.
           then_do (lift_result (if tasks db_project = [] then Inl UnboundLocalError
                                 else Inr (TaskRef (task_row_id (last (tasks db_project)))))) (\<lambda>db_task.
           then_do (lift_result (statistics_of ''annotation_speed'' job_reports)) (\<lambda>s_speed.
           then_do (lift_result (statistics_of ''annotation_time'' job_reports)) (\<lambda>s_time.
             (let objects = new_metric metrics ProjectObjects ref s_objects;
                  annotation_speed = new_metric metrics ProjectAnnotationSpeed db_task s_speed;
                  annotation_time = new_metric metrics ProjectAnnotationTime db_task s_time;
                  total_annotation_speed = new_metric metrics ProjectTotalAnnotationSpeed db_task s_speed;
                  total_object_count = new_metric metrics ProjectTotalObjectCount db_task s_speed
              in then_do (get_statistics_entry objects) (\<lambda>e_objects.
                 then_do (get_statistics_entry annotation_speed) (\<lambda>e_annotation_speed.
                 then_do (get_statistics_entry annotation_time) (\<lambda>e_annotation_time.
                 then_do (get_statistics_entry total_annotation_speed) (\<lambda>e_total_speed.
                 then_do (get_statistics_entry total_object_count) (\<lambda>e_total_count.
                   save_report now ref
                     [(''objects'', e_objects),
                      (''annotation_speed'', e_annotation_speed),
                      (''annotation_time'', e_annotation_time),
                      (''total_annotation_speed'', e_total_speed),
                      (''total_object_count'', e_total_count)])))))))))))
           st1
         else (Inr db_report, st1))"

text \<open>\<open>_check_job_analytics\<close>, the entry point of a queued job: the first identifier
  that is given selects the object; \<open>get(pk=...)\<close> of an object that is not in the
  database raises DoesNotExist, and with no identifier the result is None.\<close>

definition check_job_analytics ::
  "'d metrics \<Rightarrow> datetime \<Rightarrow> (nat \<Rightarrow> job_row option) \<Rightarrow> (nat \<Rightarrow> task_row option)
     \<Rightarrow> (nat \<Rightarrow> project_row option) \<Rightarrow> nat option \<Rightarrow> nat option \<Rightarrow> nat option
     \<Rightarrow> ('d analytics_report option, 'd) run" where
  "check_job_analytics metrics now jobs_tbl tasks_tbl projects_tbl job_id_arg task_id_arg project_id_arg =
     (case job_id_arg of
        Some i \<Rightarrow> (case jobs_tbl i of None \<Rightarrow> lift_result (Inl DoesNotExist)
                   | Some db_job \<Rightarrow>
                       then_do (compute_report_for_job metrics now db_job) (\<lambda>r. succeed (Some r)))
      | None \<Rightarrow>
          (case task_id_arg of
             Some i \<Rightarrow> (case tasks_tbl i of None \<Rightarrow> lift_result (Inl DoesNotExist)
                        | Some db_task \<Rightarrow>
                            then_do (compute_report_for_task metrics now db_task) (\<lambda>r. succeed (Some r)))
           | None \<Rightarrow>
               (case project_id_arg of
                  Some i \<Rightarrow> (case projects_tbl i of None \<Rightarrow> lift_result (Inl DoesNotExist)
                             | Some db_project \<Rightarrow>
                                 then_do (compute_report_for_project metrics now db_project)
                                   (\<lambda>r. succeed (Some r)))
                | None \<Rightarrow> succeed None)))"

section \<open>Auxiliary facts\<close>

subsection \<open>Time frames\<close>

lemma next_frame_after_now:
  fixes last delay now :: int
  assumes "0 < delay"
  shows "now < last + delay * max 1 (1 + (now - last) div delay)"
proof -
  define q where "q = (now - last) div delay"
  define r where "r = (now - last) mod delay"
  have m: "r < delay" using assms by (simp add: r_def)
  have e: "now - last = delay * q + r" by (simp add: q_def r_def)
  have "delay * (1 + q) = delay * q + delay" by (simp add: distrib_left)
  then have a: "now - last < delay * (1 + q)" using m e by linarith
  have "delay * (1 + q) \<le> delay * max 1 (1 + q)"
    using assms by (intro mult_left_mono) simp_all
  then show ?thesis unfolding q_def[symmetric] using a by linarith
qed

lemma next_frame_least:
  fixes last delay now :: int
  assumes "0 < delay" "1 \<le> k" "now < last + delay * k"
  shows "last + delay * max 1 (1 + (now - last) div delay) \<le> last + delay * k"
proof -
  define q where "q = (now - last) div delay"
  define r where "r = (now - last) mod delay"
  have m: "0 \<le> r" using assms by (simp add: r_def)
  have e: "now - last = delay * q + r" by (simp add: q_def r_def)
  have "delay * q < delay * k" using assms(3) m e by linarith
  then have "q < k" using assms(1) by (simp add: mult_less_cancel_left_pos)
  then have "max 1 (1 + q) \<le> k" using assms(2) by simp
  then have "delay * max 1 (1 + q) \<le> delay * k"
    using assms(1) by (intro mult_left_mono) simp_all
  then show ?thesis unfolding q_def[symmetric] by simp
qed

subsection \<open>The maximum by key\<close>

lemma max_from_spec:
  assumes "\<forall>x\<in>set xs. \<exists>k. f x = Inr k" and "f m = Inr km"
  shows "\<exists>r k. max_from f m km xs = Inr r \<and> r \<in> insert m (set xs) \<and> f r = Inr k \<and> km \<le> k \<and>
           (\<forall>x\<in>set xs. \<forall>k'. f x = Inr k' \<longrightarrow> k' \<le> k)"
  using assms
proof (induction xs arbitrary: m km)
  case Nil
  then show ?case by simp
next
  case (Cons x xs)
  from Cons.prems obtain kx where kx: "f x = Inr kx" by auto
  have all: "\<forall>y\<in>set xs. \<exists>k. f y = Inr k" using Cons.prems by simp
  show ?case
  proof (cases "km < kx")
    case True
    from Cons.IH[OF all kx] obtain r k where
      r: "max_from f x kx xs = Inr r" "r \<in> insert x (set xs)" "f r = Inr k" "kx \<le> k"
         "\<forall>y\<in>set xs. \<forall>k'. f y = Inr k' \<longrightarrow> k' \<le> k" by blast
    show ?thesis using r kx True by (intro exI[of _ r] exI[of _ k]) auto
  next
    case False
    from Cons.IH[OF all Cons.prems(2)] obtain r k where
      r: "max_from f m km xs = Inr r" "r \<in> insert m (set xs)" "f r = Inr k" "km \<le> k"
         "\<forall>y\<in>set xs. \<forall>k'. f y = Inr k' \<longrightarrow> k' \<le> k" by blast
    show ?thesis using r kx False by (intro exI[of _ r] exI[of _ k]) auto
  qed
qed

lemma max_by_key_spec:
  assumes "\<forall>x\<in>set xs. \<exists>k. f x = Inr k"
  shows "(xs = [] \<and> max_by_key f xs = Inr None) \<or>
         (\<exists>r k. max_by_key f xs = Inr (Some r) \<and> r \<in> set xs \<and> f r = Inr k \<and>
            (\<forall>x\<in>set xs. \<forall>k'. f x = Inr k' \<longrightarrow> k' \<le> k))"
proof (cases xs)
  case Nil
  then show ?thesis by simp
next
  case (Cons x ys)
  from assms Cons obtain kx where kx: "f x = Inr kx" by auto
  have all: "\<forall>y\<in>set ys. \<exists>k. f y = Inr k" using assms Cons by simp
  from max_from_spec[OF all kx] obtain r k where
    r: "max_from f x kx ys = Inr r" "r \<in> insert x (set ys)" "f r = Inr k" "kx \<le> k"
       "\<forall>y\<in>set ys. \<forall>k'. f y = Inr k' \<longrightarrow> k' \<le> k" by blast
  have "max_by_key f xs = Inr (Some r)" using Cons kx r(1) by simp
  moreover have "r \<in> set xs" using r(2) Cons by simp
  moreover have "\<forall>y\<in>set xs. \<forall>k'. f y = Inr k' \<longrightarrow> k' \<le> k"
    using r(4,5) kx Cons by auto
  ultimately show ?thesis using r(3) by blast
qed



subsection \<open>Reading back the text of a job id\<close>
















lemma make_queue_job_prefix_nonempty: "make_queue_job_prefix obj \<noteq> []"
  by (cases obj) simp_all

lemma prefix_nonempty: "prefix (make_queue_job_prefix obj) j \<Longrightarrow> j \<noteq> []"
  using make_queue_job_prefix_nonempty[of obj] by auto



subsection \<open>The next job id\<close>




subsection \<open>The queue and runs of calls\<close>

lemma find_app:
  "find P (xs @ ys) = (case find P xs of None \<Rightarrow> find P ys | Some x \<Rightarrow> Some x)"
  by (induction xs) auto

lemma fetch_job_enqueue_job:
  "fetch_job (enqueue_job q j) key =
     (if fetch_job q key = None \<and> rq_job_id j = key then Some j else fetch_job q key)"
  by (auto simp: enqueue_job_def fetch_job_def find_app split: option.splits)



lemma enqueue_job_fresh: "fetch_job q (rq_job_id j) = None \<Longrightarrow> enqueue_job q j = q @ [j]"
  by (simp add: enqueue_job_def)

lemma autoupdate_target_kind:
  "autoupdate_target job task project = (Some obj, pid, tid) \<Longrightarrow>
     (case obj of Task t \<Rightarrow> tid = Some (task_id t) \<and> pid = None
      | Project p \<Rightarrow> pid = Some (project_id p) \<and> tid = None)"
  by (auto simp: autoupdate_target_def split: option.splits)

lemma schedule_autoupdate_cases:
  assumes "schedule_analytics_report_autoupdate_job delay now utcnow q job task project = Inr q'"
  obtains next_job_time obj pid tid key where
    "datetime_add utcnow delay = Inr next_job_time"
    "autoupdate_target job task project = (Some obj, pid, tid)"
    "find_next_job_id delay (remdups (map rq_job_id (get_jobs q next_job_time))) obj now = Inr key"
    "q' = (if key \<notin> set (remdups (map rq_job_id (get_jobs q next_job_time)))
           then enqueue_at q next_job_time tid pid key else q)"
proof -
  from assms obtain njt where njt: "datetime_add utcnow delay = Inr njt"
    by (auto simp: schedule_analytics_report_autoupdate_job_def split: sum.splits)
  let ?ex = "remdups (map rq_job_id (get_jobs q njt))"
  have e: "autoupdate_enqueue delay now njt ?ex q job task project = Inr q'"
    using assms njt by (simp add: schedule_analytics_report_autoupdate_job_def Let_def)
  obtain tgt pid tid where t: "autoupdate_target job task project = (tgt, pid, tid)"
    by (cases "autoupdate_target job task project") auto
  from e t obtain obj where obj: "tgt = Some obj"
    by (cases tgt) (auto simp: autoupdate_enqueue_def)
  from e t obj obtain key where key: "find_next_job_id delay ?ex obj now = Inr key"
    by (auto simp: autoupdate_enqueue_def split: sum.splits)
  have "q' = (if key \<notin> set ?ex then enqueue_at q njt tid pid key else q)"
    using e t obj key by (auto simp: autoupdate_enqueue_def)
  then show ?thesis using that njt t obj key by blast
qed


subsection \<open>The stored reports during a recomputation\<close>












subsection \<open>Evaluation rules for concrete inputs\<close>

lemmas eval_simps =
  str_timestamp_def str_nat.simps frac_digits.simps digit_char_def digit_val_def
  parse_unsigned_def fromtimestamp_def get_timestamp_def split1_last_def
  datetime_min_def datetime_max_def make_initial_queue_job_id_def
  make_regular_queue_job_id_def QUEUE_JOB_PREFIX_TASK_def QUEUE_JOB_PREFIX_PROJECT_def
  find_next_job_id_def next_update_time_def timedelta_floordiv_def datetime_add_def
  get_last_report_time_def spec_intervals_def Let_def


lemmas engine_simps =
  compute_report_for_job_def compute_report_for_task_def compute_report_for_project_def
  then_do_def get_statistics_entry_def save_report_def create_report_def new_metric_def
  lift_result_def succeed_def refresh_from_db_def Let_def

section \<open>Properties of the update manager\<close>

subsection \<open>The next time frame (claim C1)\<close>

text \<open>
  Claim C1, as amended. For an object with a report created at \<open>t0\<close>, a positive
  delay, and no pending job of the object whose time is still after \<open>now\<close>,
  \<open>_find_next_job_id\<close> returns the regular job id of the time
  \<open>t0 + delay * max(1, 1 + (now - t0) // delay)\<close>; this time is after \<open>now\<close>, and it
  is the least \<open>t0 + delay * k\<close> with \<open>k \<ge> 1\<close> that is after \<open>now\<close>. (The claim's
  \<open>ceil((now - t0) / delay)\<close> gives a different time when \<open>now - t0\<close> is a positive
  multiple of the delay: see the counterexample.)
\<close>

theorem C1_next_time_frame:
  fixes t0 :: datetime
  assumes delay: "0 < delay"
    and t0: "get_last_report_time obj = Some t0"
    and pending: "\<forall>j\<in>set existing_job_ids. prefix (make_queue_job_prefix obj) j \<longrightarrow>
           (\<exists>t. get_timestamp (make_queue_job_prefix obj) j = Inr t \<and> t \<le> now)"
    and range: "datetime_min \<le> t0"
          "t0 + delay * max 1 (1 + (now - t0) div delay) \<le> datetime_max"
  shows "find_next_job_id delay existing_job_ids obj now =
           Inr (make_regular_queue_job_id obj (t0 + delay * max 1 (1 + (now - t0) div delay)))
       \<and> now < t0 + delay * max 1 (1 + (now - t0) div delay)
       \<and> (\<forall>k\<ge>1. now < t0 + delay * k \<longrightarrow>
             t0 + delay * max 1 (1 + (now - t0) div delay) \<le> t0 + delay * k)"
proof -
  let ?p = "make_queue_job_prefix obj"
  let ?xs = "filter (prefix ?p) existing_job_ids"
  let ?T = "t0 + delay * max 1 (1 + (now - t0) div delay)"
  have keys: "\<forall>x\<in>set ?xs. \<exists>k. get_timestamp ?p x = Inr k" using pending by auto
  have T: "next_update_time t0 delay now = Inr ?T"
  proof -
    have "0 < delay * max 1 (1 + (now - t0) div delay)" using delay by simp
    then have "\<not> ?T < datetime_min" using range(1) by linarith
    then show ?thesis using delay range(2)
      by (simp add: next_update_time_def timedelta_floordiv_def datetime_add_def Let_def)
  qed
  have find: "find_next_job_id delay existing_job_ids obj now = Inr (make_regular_queue_job_id obj ?T)"
  proof -
    from max_by_key_spec[OF keys] show ?thesis
    proof
      assume "?xs = [] \<and> max_by_key (get_timestamp ?p) ?xs = Inr None"
      then show ?thesis using t0 T by (simp add: find_next_job_id_def Let_def)
    next
      assume "\<exists>r k. max_by_key (get_timestamp ?p) ?xs = Inr (Some r) \<and> r \<in> set ?xs \<and>
                get_timestamp ?p r = Inr k \<and>
                (\<forall>x\<in>set ?xs. \<forall>k'. get_timestamp ?p x = Inr k' \<longrightarrow> k' \<le> k)"
      then obtain r k where r: "max_by_key (get_timestamp ?p) ?xs = Inr (Some r)" "r \<in> set ?xs"
        "get_timestamp ?p r = Inr k" by blast
      have "r \<noteq> []" using r(2) prefix_nonempty[of obj r] by simp
      moreover have "k \<le> now" using r(2,3) pending by auto
      ultimately show ?thesis using r t0 T by (simp add: find_next_job_id_def Let_def)
    qed
  qed
  have least: "\<forall>k\<ge>1. now < t0 + delay * k \<longrightarrow> ?T \<le> t0 + delay * k"
    using next_frame_least[OF delay] by simp
  show ?thesis using find next_frame_after_now[OF delay] least by (intro conjI)
qed

theorem C1_next_time_frame_witness:
  "find_next_job_id 30000000 [''update-analytics-report-project-1-130.0'', ''update-analytics-report-project-1-initial'']
      (Project \<lparr>project_id = 1, project_report = Some \<lparr>created_date = 100000000, statistics = ([] :: (string \<times> nat statistics_entry) list)\<rparr>\<rparr>)
      145000000 = Inr ''update-analytics-report-project-1-160.0''"
proof -
  let ?obj = "Project \<lparr>project_id = 1, project_report = Some \<lparr>created_date = 100000000, statistics = ([] :: (string \<times> nat statistics_entry) list)\<rparr>\<rparr>"
  let ?ex = "[''update-analytics-report-project-1-130.0'', ''update-analytics-report-project-1-initial'']"
  have h1: "(0::int) < 30000000" by simp
  have h2: "get_last_report_time ?obj = Some 100000000" by (simp add: get_last_report_time_def)
  have g1: "get_timestamp (make_queue_job_prefix ?obj) ''update-analytics-report-project-1-130.0'' = Inr 130000000"
    by (simp add: eval_simps)
  have g2: "get_timestamp (make_queue_job_prefix ?obj) ''update-analytics-report-project-1-initial'' = Inr (- 62135596800000000)"
    by (simp add: eval_simps)
  have h3: "\<forall>j\<in>set ?ex. prefix (make_queue_job_prefix ?obj) j \<longrightarrow>
           (\<exists>t. get_timestamp (make_queue_job_prefix ?obj) j = Inr t \<and> t \<le> 145000000)"
    using g1 g2 by simp
  have h4: "datetime_min \<le> 100000000" by (simp add: datetime_min_def)
  have h5: "(100000000::int) + 30000000 * max 1 (1 + (145000000 - 100000000) div 30000000) \<le> datetime_max"
    by (simp add: datetime_max_def)
  have e: "make_regular_queue_job_id ?obj (100000000 + 30000000 * max 1 (1 + (145000000 - 100000000) div 30000000)) = ''update-analytics-report-project-1-160.0''"
    by (simp add: eval_simps)
  show ?thesis using C1_next_time_frame[OF h1 h2 h3 h4 h5] unfolding e by simp
qed

theorem C1_counterexample:
  "find_next_job_id 30000000 []
      (Project \<lparr>project_id = 1, project_report = Some \<lparr>created_date = 100000000, statistics = ([] :: (string \<times> nat statistics_entry) list)\<rparr>\<rparr>)
      130000000 = Inr ''update-analytics-report-project-1-160.0''
   \<and> make_regular_queue_job_id
      (Project \<lparr>project_id = 1, project_report = Some \<lparr>created_date = 100000000, statistics = ([] :: (string \<times> nat statistics_entry) list)\<rparr>\<rparr>)
      (100000000 + 30000000 * spec_intervals 100000000 30000000 130000000) = ''update-analytics-report-project-1-130.0''
   \<and> \<not> (130000000 < 100000000 + 30000000 * spec_intervals 100000000 30000000 130000000)"
  by (simp add: eval_simps)

subsection \<open>Enqueueing the next job (claim C2)\<close>

text \<open>
  Claim C2, as amended. When the next job id of the target is not among the listed
  ids, \<open>schedule_analytics_report_autoupdate_job\<close> makes one enqueue request under
  that id, for the time \<open>utcnow + delay\<close> (the end of the listed window, not the time
  written in the id), with the task id or the project id of the target as payload; a
  queue that does not hold the id gets exactly this one job appended. When the id is
  listed, the queue is returned as it is.
\<close>

theorem C2_enqueue_when_not_listed:
  assumes "datetime_add utcnow delay = Inr next_job_time"
    and "autoupdate_target job task project = (Some obj, pid, tid)"
    and "find_next_job_id delay (remdups (map rq_job_id (get_jobs q next_job_time))) obj now = Inr key"
  shows "schedule_analytics_report_autoupdate_job delay now utcnow q job task project =
           Inr (if key \<in> rq_job_id ` set (get_jobs q next_job_time) then q
                else enqueue_at q next_job_time tid pid key)
       \<and> next_job_time = utcnow + delay
       \<and> (fetch_job q key = None \<longrightarrow>
            enqueue_at q next_job_time tid pid key =
              q @ [\<lparr>rq_job_id = key, scheduled_time = Some (utcnow + delay), cvat_job_id = None,
                     cvat_task_id = tid, cvat_project_id = pid,
                     meta = [], result_ttl = None, failure_ttl = None\<rparr>])
       \<and> (case obj of Task t \<Rightarrow> tid = Some (task_id t) \<and> pid = None
           | Project p \<Rightarrow> pid = Some (project_id p) \<and> tid = None)"
proof (intro conjI impI)
  show "schedule_analytics_report_autoupdate_job delay now utcnow q job task project =
           Inr (if key \<in> rq_job_id ` set (get_jobs q next_job_time) then q
                else enqueue_at q next_job_time tid pid key)"
    using assms
    by (simp add: schedule_analytics_report_autoupdate_job_def autoupdate_enqueue_def Let_def)
next
  show njt: "next_job_time = utcnow + delay"
    using assms(1) by (auto simp: datetime_add_def split: if_splits)
  assume "fetch_job q key = None"
  then show "enqueue_at q next_job_time tid pid key =
              q @ [\<lparr>rq_job_id = key, scheduled_time = Some (utcnow + delay), cvat_job_id = None,
                     cvat_task_id = tid, cvat_project_id = pid,
                     meta = [], result_ttl = None, failure_ttl = None\<rparr>]"
    using njt by (simp add: enqueue_at_def enqueue_job_fresh)
next
  show "case obj of Task t \<Rightarrow> tid = Some (task_id t) \<and> pid = None
           | Project p \<Rightarrow> pid = Some (project_id p) \<and> tid = None"
    using autoupdate_target_kind[OF assms(2)] .
qed

theorem C2_enqueue_when_not_listed_witness:
  "schedule_analytics_report_autoupdate_job 30000000 145000000 145000000 [] None None
        (Some \<lparr>project_id = 1, project_report =
            Some \<lparr>created_date = 100000000, statistics = ([] :: (string \<times> nat statistics_entry) list)\<rparr>\<rparr>) =
        Inr [\<lparr>rq_job_id = ''update-analytics-report-project-1-160.0'',
               scheduled_time = Some 175000000, cvat_job_id = None, cvat_task_id = None,
               cvat_project_id = Some 1, meta = [], result_ttl = None, failure_ttl = None\<rparr>]"
proof -
  let ?P = "\<lparr>project_id = 1, project_report =
            Some \<lparr>created_date = 100000000, statistics = ([] :: (string \<times> nat statistics_entry) list)\<rparr>\<rparr>"
  have h1: "datetime_add 145000000 30000000 = Inr 175000000"
    by (simp add: eval_simps)
  have h2: "autoupdate_target None None (Some ?P) = (Some (Project ?P), Some 1, None)"
    by (simp add: autoupdate_target_def)
  have h3: "find_next_job_id 30000000 (remdups (map rq_job_id (get_jobs [] 175000000)))
              (Project ?P) 145000000 = Inr ''update-analytics-report-project-1-160.0''"
    by (simp add: get_jobs_def eval_simps)
  have f: "fetch_job [] ''update-analytics-report-project-1-160.0'' = None"
    by (simp add: fetch_job_def)
  show ?thesis using C2_enqueue_when_not_listed[OF h1 h2 h3] f
    by (simp add: get_jobs_def)
qed

theorem C2_counterexample:
  "schedule_analytics_report_autoupdate_job 30000000 145000000 145000000 [] None None
        (Some \<lparr>project_id = 1, project_report =
            Some \<lparr>created_date = 100000000, statistics = ([] :: (string \<times> nat statistics_entry) list)\<rparr>\<rparr>) =
        Inr [\<lparr>rq_job_id = ''update-analytics-report-project-1-160.0'',
               scheduled_time = Some 175000000, cvat_job_id = None, cvat_task_id = None,
               cvat_project_id = Some 1, meta = [], result_ttl = None, failure_ttl = None\<rparr>]
   \<and> get_timestamp ''update-analytics-report-project-1-''
         ''update-analytics-report-project-1-160.0'' = Inr 160000000"
  by (simp add: schedule_analytics_report_autoupdate_job_def autoupdate_enqueue_def
        autoupdate_target_def get_jobs_def enqueue_at_def enqueue_job_def fetch_job_def eval_simps)

subsection \<open>The first job of an object (claim C3)\<close>



subsection \<open>Coalescing within a window (claim C4)\<close>



subsection \<open>The staleness short circuit (claim C5)\<close>

text \<open>
  Claim C5. For a job, a task and a project alike: when the object has a report whose
  \<open>created_date\<close> is not before the \<open>updated_date\<close> of the object, the computation
  returns that report and leaves the world as it is: no call of \<open>calculate()\<close> is
  recorded and no report is written.
\<close>

theorem C5_staleness_short_circuit:
  "(reports st (JobRef (job_row_id db_job)) = Some r \<and> job_updated_date db_job \<le> created_date r
      \<longrightarrow> compute_report_for_job metrics now db_job st = (Inr r, st))
   \<and> (reports st (TaskRef (task_row_id db_task)) = Some r' \<and> task_updated_date db_task \<le> created_date r'
      \<longrightarrow> compute_report_for_task metrics now db_task st = (Inr r', st))
   \<and> (reports st (ProjectRef (project_row_id db_project)) = Some r'' \<and>
        project_updated_date db_project \<le> created_date r''
      \<longrightarrow> compute_report_for_project metrics now db_project st = (Inr r'', st))"
  by (simp add: compute_report_for_job_def compute_report_for_task_def
      compute_report_for_project_def)

theorem C5_staleness_short_circuit_witness:
  "compute_report_for_job
      (\<lambda>cls ref es. \<lparr>metric_title = ''t'', metric_description = ''d'', metric_granularity = ''day'',
          metric_default_view = ''numeric'', metric_transformations = [], calculate = Inr (length es)\<rparr>)
      200 \<lparr>job_row_id = 3, job_updated_date = 50\<rparr>
      \<lparr>reports = [JobRef 3 \<mapsto> \<lparr>created_date = 100, statistics = []\<rparr>], calculate_calls = []\<rparr>
    = (Inr \<lparr>created_date = 100, statistics = []\<rparr>,
       \<lparr>reports = [JobRef 3 \<mapsto> \<lparr>created_date = 100, statistics = []\<rparr>], calculate_calls = []\<rparr>)
   \<and> compute_report_for_task
      (\<lambda>cls ref es. \<lparr>metric_title = ''t'', metric_description = ''d'', metric_granularity = ''day'',
          metric_default_view = ''numeric'', metric_transformations = [], calculate = Inr (length es)\<rparr>)
      200 \<lparr>task_row_id = 3, task_updated_date = 100,
            segment_set = [[\<lparr>job_row_id = 3, job_updated_date = 150\<rparr>]]\<rparr>
      \<lparr>reports = [TaskRef 3 \<mapsto> \<lparr>created_date = 100, statistics = []\<rparr>], calculate_calls = []\<rparr>
    = (Inr \<lparr>created_date = 100, statistics = []\<rparr>,
       \<lparr>reports = [TaskRef 3 \<mapsto> \<lparr>created_date = 100, statistics = []\<rparr>], calculate_calls = []\<rparr>)
   \<and> compute_report_for_project
      (\<lambda>cls ref es. \<lparr>metric_title = ''t'', metric_description = ''d'', metric_granularity = ''day'',
          metric_default_view = ''numeric'', metric_transformations = [], calculate = Inr (length es)\<rparr>)
      200 \<lparr>project_row_id = 3, project_updated_date = 100, tasks = []\<rparr>
      \<lparr>reports = [ProjectRef 3 \<mapsto> \<lparr>created_date = 100, statistics = []\<rparr>], calculate_calls = []\<rparr>
    = (Inr \<lparr>created_date = 100, statistics = []\<rparr>,
       \<lparr>reports = [ProjectRef 3 \<mapsto> \<lparr>created_date = 100, statistics = []\<rparr>], calculate_calls = []\<rparr>)"
  using C5_staleness_short_circuit
    [of "\<lparr>reports = [JobRef 3 \<mapsto> \<lparr>created_date = 100, statistics = []\<rparr>], calculate_calls = []\<rparr>"
        "\<lparr>job_row_id = 3, job_updated_date = 50\<rparr>" "\<lparr>created_date = 100, statistics = []\<rparr>"
        "\<lambda>cls ref es. \<lparr>metric_title = ''t'', metric_description = ''d'', metric_granularity = ''day'',
          metric_default_view = ''numeric'', metric_transformations = [], calculate = Inr (length es)\<rparr>"
        200
        "\<lparr>task_row_id = 3, task_updated_date = 100,
            segment_set = [[\<lparr>job_row_id = 3, job_updated_date = 150\<rparr>]]\<rparr>"
        "\<lparr>created_date = 100, statistics = []\<rparr>"
        "\<lparr>project_row_id = 3, project_updated_date = 100, tasks = []\<rparr>"
        "\<lparr>created_date = 100, statistics = []\<rparr>"]
    C5_staleness_short_circuit
    [of "\<lparr>reports = [TaskRef 3 \<mapsto> \<lparr>created_date = 100, statistics = []\<rparr>], calculate_calls = []\<rparr>"
        "\<lparr>job_row_id = 3, job_updated_date = 50\<rparr>" "\<lparr>created_date = 100, statistics = []\<rparr>"
        "\<lambda>cls ref es. \<lparr>metric_title = ''t'', metric_description = ''d'', metric_granularity = ''day'',
          metric_default_view = ''numeric'', metric_transformations = [], calculate = Inr (length es)\<rparr>"
        200
        "\<lparr>task_row_id = 3, task_updated_date = 100,
            segment_set = [[\<lparr>job_row_id = 3, job_updated_date = 150\<rparr>]]\<rparr>"
        "\<lparr>created_date = 100, statistics = []\<rparr>"
        "\<lparr>project_row_id = 3, project_updated_date = 100, tasks = []\<rparr>"
        "\<lparr>created_date = 100, statistics = []\<rparr>"]
    C5_staleness_short_circuit
    [of "\<lparr>reports = [ProjectRef 3 \<mapsto> \<lparr>created_date = 100, statistics = []\<rparr>], calculate_calls = []\<rparr>"
        "\<lparr>job_row_id = 3, job_updated_date = 50\<rparr>" "\<lparr>created_date = 100, statistics = []\<rparr>"
        "\<lambda>cls ref es. \<lparr>metric_title = ''t'', metric_description = ''d'', metric_granularity = ''day'',
          metric_default_view = ''numeric'', metric_transformations = [], calculate = Inr (length es)\<rparr>"
        200
        "\<lparr>task_row_id = 3, task_updated_date = 100,
            segment_set = [[\<lparr>job_row_id = 3, job_updated_date = 150\<rparr>]]\<rparr>"
        "\<lparr>created_date = 100, statistics = []\<rparr>"
        "\<lparr>project_row_id = 3, project_updated_date = 100, tasks = []\<rparr>"
        "\<lparr>created_date = 100, statistics = []\<rparr>"]
  by simp

subsection \<open>The first report of a job (claim C6)\<close>

text \<open>
  Claim C6. For a job without a report, when the three primary metrics of the job and
  the two total metrics constructed from the \<open>annotation_speed\<close> entry just computed
  return their dataseries, \<open>_compute_report_for_job\<close> returns a report that is also
  the stored one, with \<open>created_date = now\<close> and exactly the five entries \<open>objects\<close>,
  \<open>annotation_speed\<close>, \<open>annotation_time\<close>, \<open>total_annotation_speed\<close> and
  \<open>total_object_count\<close>, each holding the dataseries its metric returned; the five
  calls of \<open>calculate()\<close> are the only ones.
\<close>

theorem C6_first_report_of_job:
  assumes absent: "reports st (JobRef (job_row_id db_job)) = None"
    and objects: "calculate (metrics JobObjects (JobRef (job_row_id db_job)) []) = Inr d_objects"
    and speed: "calculate (metrics JobAnnotationSpeed (JobRef (job_row_id db_job)) []) = Inr d_speed"
    and time: "calculate (metrics JobAnnotationTime (JobRef (job_row_id db_job)) []) = Inr d_time"
    and e_speed: "e_speed =
       \<lparr>title = metric_title (metrics JobAnnotationSpeed (JobRef (job_row_id db_job)) []),
        description = metric_description (metrics JobAnnotationSpeed (JobRef (job_row_id db_job)) []),
        granularity = metric_granularity (metrics JobAnnotationSpeed (JobRef (job_row_id db_job)) []),
        default_view = metric_default_view (metrics JobAnnotationSpeed (JobRef (job_row_id db_job)) []),
        transformations = metric_transformations (metrics JobAnnotationSpeed (JobRef (job_row_id db_job)) []),
        dataseries = d_speed\<rparr>"
    and total_speed:
      "calculate (metrics JobTotalAnnotationSpeed (JobRef (job_row_id db_job)) [e_speed]) = Inr d_total_speed"
    and total_count:
      "calculate (metrics JobTotalObjectCount (JobRef (job_row_id db_job)) [e_speed]) = Inr d_total_count"
  shows "\<exists>r st'. compute_report_for_job metrics now db_job st = (Inr r, st')
       \<and> reports st' (JobRef (job_row_id db_job)) = Some r
       \<and> created_date r = now
       \<and> map fst (statistics r) =
           [''objects'', ''annotation_speed'', ''annotation_time'',
            ''total_annotation_speed'', ''total_object_count'']
       \<and> map (\<lambda>(k, e). dataseries e) (statistics r) =
           [d_objects, d_speed, d_time, d_total_speed, d_total_count]
       \<and> map_of (statistics r) ''annotation_speed'' = Some e_speed
       \<and> calculate_calls st' = calculate_calls st @
           [(JobObjects, JobRef (job_row_id db_job)), (JobAnnotationSpeed, JobRef (job_row_id db_job)),
            (JobAnnotationTime, JobRef (job_row_id db_job)),
            (JobTotalAnnotationSpeed, JobRef (job_row_id db_job)),
            (JobTotalObjectCount, JobRef (job_row_id db_job))]"
  using assms
  by (simp add: compute_report_for_job_def create_report_def save_report_def Let_def
      new_metric_def then_do_def get_statistics_entry_def)

theorem C6_first_report_of_job_witness:
  "\<exists>r st'. compute_report_for_job
      (\<lambda>cls ref es. \<lparr>metric_title = ''t'', metric_description = ''d'', metric_granularity = ''day'',
          metric_default_view = ''numeric'', metric_transformations = [], calculate = Inr (length es)\<rparr>)
      200 \<lparr>job_row_id = 3, job_updated_date = 50\<rparr>
      \<lparr>reports = Map.empty, calculate_calls = []\<rparr> = (Inr r, st')
     \<and> reports st' (JobRef 3) = Some r \<and> created_date r = 200
     \<and> map fst (statistics r) =
           [''objects'', ''annotation_speed'', ''annotation_time'',
            ''total_annotation_speed'', ''total_object_count'']
     \<and> map (\<lambda>(k, e). dataseries e) (statistics r) = [0, 0, 0, 1, 1]
     \<and> calculate_calls st' =
           [(JobObjects, JobRef 3), (JobAnnotationSpeed, JobRef 3), (JobAnnotationTime, JobRef 3),
            (JobTotalAnnotationSpeed, JobRef 3), (JobTotalObjectCount, JobRef 3)]"
proof -
  let ?M = "\<lambda>(cls :: metric_cls) (ref :: obj_ref) (es :: nat statistics_entry list).
      \<lparr>metric_title = ''t'', metric_description = ''d'', metric_granularity = ''day'',
       metric_default_view = ''numeric'', metric_transformations = [], calculate = Inr (length es)\<rparr>"
  let ?st = "\<lparr>reports = Map.empty, calculate_calls = []\<rparr> :: nat world"
  let ?J = "\<lparr>job_row_id = 3, job_updated_date = 50\<rparr>"
  let ?e = "\<lparr>title = ''t'', description = ''d'', granularity = ''day'', default_view = ''numeric'',
            transformations = [], dataseries = (0::nat)\<rparr>"
  have h0: "reports ?st (JobRef (job_row_id ?J)) = None" by simp
  have h1: "calculate (?M JobObjects (JobRef (job_row_id ?J)) []) = Inr 0" by simp
  have h2: "calculate (?M JobAnnotationSpeed (JobRef (job_row_id ?J)) []) = Inr 0" by simp
  have h3: "calculate (?M JobAnnotationTime (JobRef (job_row_id ?J)) []) = Inr 0" by simp
  have h4: "?e =
       \<lparr>title = metric_title (?M JobAnnotationSpeed (JobRef (job_row_id ?J)) []),
        description = metric_description (?M JobAnnotationSpeed (JobRef (job_row_id ?J)) []),
        granularity = metric_granularity (?M JobAnnotationSpeed (JobRef (job_row_id ?J)) []),
        default_view = metric_default_view (?M JobAnnotationSpeed (JobRef (job_row_id ?J)) []),
        transformations = metric_transformations (?M JobAnnotationSpeed (JobRef (job_row_id ?J)) []),
        dataseries = 0\<rparr>" by simp
  have h5: "calculate (?M JobTotalAnnotationSpeed (JobRef (job_row_id ?J)) [?e]) = Inr 1" by simp
  have h6: "calculate (?M JobTotalObjectCount (JobRef (job_row_id ?J)) [?e]) = Inr 1" by simp
  from C6_first_report_of_job[of ?st ?J ?M, OF h0 h1 h2 h3 h4 h5 h6, of 200]
  obtain r st' where "compute_report_for_job ?M 200 ?J ?st = (Inr r, st')"
    "reports st' (JobRef 3) = Some r" "created_date r = 200"
    "map fst (statistics r) =
           [''objects'', ''annotation_speed'', ''annotation_time'',
            ''total_annotation_speed'', ''total_object_count'']"
    "map (\<lambda>(k, e). dataseries e) (statistics r) = [0, 0, 0, 1, 1]"
    "calculate_calls st' =
           [(JobObjects, JobRef 3), (JobAnnotationSpeed, JobRef 3), (JobAnnotationTime, JobRef 3),
            (JobTotalAnnotationSpeed, JobRef 3), (JobTotalObjectCount, JobRef 3)]"
    by auto
  then show ?thesis by (intro exI[of _ r] exI[of _ st']) simp
qed

subsection \<open>Failures during the recomputation (claim C7)\<close>




subsection \<open>The metrics of a project (claim C8)\<close>

text \<open>
  Claim C8 on the code. For a project 1 without reports, whose only task 7 has the only
  job 3, the recorded calls of \<open>calculate()\<close> show that \<open>ProjectObjects\<close> is
  constructed with the project, while \<open>ProjectAnnotationSpeed\<close>,
  \<open>ProjectAnnotationTime\<close>, \<open>ProjectTotalAnnotationSpeed\<close> and
  \<open>ProjectTotalObjectCount\<close> are constructed with the last task of the loop; for a
  project without tasks the variable is unbound and the call raises.
\<close>

theorem C8_project_metrics_constructed_with_last_task:
  "calculate_calls (snd (compute_report_for_project
      (\<lambda>cls ref es. \<lparr>metric_title = ''t'', metric_description = ''d'', metric_granularity = ''day'',
          metric_default_view = ''numeric'', metric_transformations = [],
          calculate = Inr (length es)\<rparr>)
      200 \<lparr>project_row_id = 1, project_updated_date = 150,
            tasks = [\<lparr>task_row_id = 7, task_updated_date = 150,
                      segment_set = [[\<lparr>job_row_id = 3, job_updated_date = 150\<rparr>]]\<rparr>]\<rparr>
      \<lparr>reports = Map.empty, calculate_calls = []\<rparr>))
    = [(JobObjects, JobRef 3), (JobAnnotationSpeed, JobRef 3), (JobAnnotationTime, JobRef 3),
       (JobTotalAnnotationSpeed, JobRef 3), (JobTotalObjectCount, JobRef 3),
       (TaskObjects, TaskRef 7), (TaskAnnotationSpeed, TaskRef 7), (TaskAnnotationTime, TaskRef 7),
       (TaskTotalAnnotationSpeed, TaskRef 7), (TaskTotalObjectCount, TaskRef 7),
       (ProjectObjects, ProjectRef 1), (ProjectAnnotationSpeed, TaskRef 7),
       (ProjectAnnotationTime, TaskRef 7), (ProjectTotalAnnotationSpeed, TaskRef 7),
       (ProjectTotalObjectCount, TaskRef 7)]
   \<and> fst (compute_report_for_project
      (\<lambda>cls ref es. \<lparr>metric_title = ''t'', metric_description = ''d'', metric_granularity = ''day'',
          metric_default_view = ''numeric'', metric_transformations = [],
          calculate = Inr (length es)\<rparr>)
      200 \<lparr>project_row_id = 1, project_updated_date = 150, tasks = []\<rparr>
      \<lparr>reports = Map.empty, calculate_calls = []\<rparr>) = Inl UnboundLocalError"
  by (simp add: engine_simps)

subsection \<open>On-demand jobs (claim C9)\<close>

text \<open>
  Claim C9. \<open>get_analytics_check_job\<close> returns a job exactly when the queue holds a
  job under the key and the \<open>job_type\<close> of its meta is \<open>custom_analytics_check\<close>;
  a key that the queue does not hold gives None; a key that the periodic scheduler has
  just put into the queue gives None; and the key of a job enqueued by
  \<open>schedule_analytics_check_job\<close> gives that job.
\<close>

theorem C9_get_analytics_check_job:
  "((get_analytics_check_job q key = Some j) =
      (fetch_job q key = Some j \<and> map_of (meta j) ''job_type'' = Some (MetaStr ''custom_analytics_check'')))
   \<and> (fetch_job q key = None \<longrightarrow> get_analytics_check_job q key = None)
   \<and> (schedule_analytics_report_autoupdate_job delay now utcnow q job task project = Inr q'
        \<and> fetch_job q key = None \<longrightarrow> get_analytics_check_job q' key = None)
   \<and> (fetch_job q rq_id = None \<longrightarrow>
        (\<exists>c. get_analytics_check_job (snd (schedule_analytics_check_job rq_id q job2 task2 project2 user_id)) rq_id = Some c
             \<and> rq_job_id c = rq_id))"
proof (intro conjI impI)
  show "(get_analytics_check_job q key = Some j) =
      (fetch_job q key = Some j \<and> map_of (meta j) ''job_type'' = Some (MetaStr ''custom_analytics_check''))"
    by (auto simp: get_analytics_check_job_def is_custom_analytics_check_job_def
        RQ_CUSTOM_ANALYTICS_CHECK_JOB_TYPE_def split: option.splits)
next
  assume "fetch_job q key = None"
  then show "get_analytics_check_job q key = None" by (simp add: get_analytics_check_job_def)
next
  assume a: "schedule_analytics_report_autoupdate_job delay now utcnow q job task project = Inr q'
        \<and> fetch_job q key = None"
  then obtain t tid pid k where "q' = q \<or> q' = enqueue_at q t tid pid k"
    by (elim conjE schedule_autoupdate_cases) (auto split: if_splits)
  then show "get_analytics_check_job q' key = None" using a
    by (auto simp: get_analytics_check_job_def enqueue_at_def fetch_job_enqueue_job
        is_custom_analytics_check_job_def)
next
  assume "fetch_job q rq_id = None"
  then show "\<exists>c. get_analytics_check_job (snd (schedule_analytics_check_job rq_id q job2 task2 project2 user_id)) rq_id = Some c
             \<and> rq_job_id c = rq_id"
    by (simp add: schedule_analytics_check_job_def get_analytics_check_job_def
        fetch_job_enqueue_job is_custom_analytics_check_job_def)
qed

theorem C9_get_analytics_check_job_witness:
  "fetch_job [] ''update-analytics-report-project-1-initial'' = None
   \<and> schedule_analytics_report_autoupdate_job 30000000 145000000 145000000 [] None None
        (Some \<lparr>project_id = 1, project_report = (None :: nat analytics_report option)\<rparr>) =
        Inr [\<lparr>rq_job_id = ''update-analytics-report-project-1-initial'',
               scheduled_time = Some 175000000, cvat_job_id = None, cvat_task_id = None,
               cvat_project_id = Some 1, meta = [], result_ttl = None, failure_ttl = None\<rparr>]
   \<and> get_analytics_check_job
        [\<lparr>rq_job_id = ''update-analytics-report-project-1-initial'',
               scheduled_time = Some 175000000, cvat_job_id = None, cvat_task_id = None,
               cvat_project_id = Some 1, meta = [], result_ttl = None, failure_ttl = None\<rparr>]
        ''update-analytics-report-project-1-initial'' = None
   \<and> (\<exists>c. get_analytics_check_job
          (snd (schedule_analytics_check_job ''0a1b'' [] None None
             (Some \<lparr>project_id = 1, project_report = (None :: nat analytics_report option)\<rparr>) 7))
          ''0a1b'' = Some c \<and> rq_job_id c = ''0a1b'')"
proof -
  let ?P = "\<lparr>project_id = 1, project_report = (None :: nat analytics_report option)\<rparr>"
  let ?J = "\<lparr>rq_job_id = ''update-analytics-report-project-1-initial'',
               scheduled_time = Some 175000000, cvat_job_id = None, cvat_task_id = None,
               cvat_project_id = Some 1, meta = [], result_ttl = None, failure_ttl = None\<rparr>"
  have f: "fetch_job [] ''update-analytics-report-project-1-initial'' = None"
    by (simp add: fetch_job_def)
  have f2: "fetch_job [] ''0a1b'' = None"
    by (simp add: fetch_job_def)
  have h: "schedule_analytics_report_autoupdate_job 30000000 145000000 145000000 [] None None
        (Some ?P) = Inr [?J]"
    by (simp add: schedule_analytics_report_autoupdate_job_def autoupdate_enqueue_def
        autoupdate_target_def get_jobs_def enqueue_at_def enqueue_job_def fetch_job_def eval_simps)
  show ?thesis
    using C9_get_analytics_check_job[of "[]" "''update-analytics-report-project-1-initial''" ?J
        30000000 145000000 145000000 None None "Some ?P" "[?J]" "''0a1b''" None None "Some ?P" 7]
      f f2 h by simp
qed

subsection \<open>The target of the periodic update (claim C10)\<close>



end
